theory Spec2Isabelle
  imports Main
begin

section \<open>Strings and paths\<close>

text \<open>
  The program is \<^verbatim>\<open>streamlit_app_multi.py\<close>. A Python \<^verbatim>\<open>str\<close> is modelled as a
  \<^typ>\<open>string\<close> in which every \<^typ>\<open>char\<close> stands for one code point below 256.
  \<^verbatim>\<open>str.lower()\<close> on such a code point changes the ASCII capitals and the Latin-1
  capitals (192 to 222, the multiplication sign 215 apart) and nothing else.
\<close>

type_synonym path = string

definition lower_char :: "char \<Rightarrow> char" where
  "lower_char c =
     (let n = (of_char c :: nat)
      in if (65 \<le> n \<and> n \<le> 90) \<or> (192 \<le> n \<and> n \<le> 222 \<and> n \<noteq> 215)
         then char_of (n + 32) else c)"

definition lower :: "string \<Rightarrow> string" where
  "lower s = map lower_char s"

text \<open>\<^verbatim>\<open>s.rfind(c)\<close>: the last index of \<open>c\<close>, \<open>None\<close> for Python's \<open>-1\<close>.\<close>

fun rfind :: "char \<Rightarrow> string \<Rightarrow> nat option" where
  "rfind c [] = None"
| "rfind c (x # xs) =
     (case rfind c xs of
        Some i \<Rightarrow> Some (Suc i)
      | None \<Rightarrow> if x = c then Some 0 else None)"

text \<open>\<^verbatim>\<open>s.split('/')\<close>.\<close>

fun split_sep :: "string \<Rightarrow> string list" where
  "split_sep [] = [[]]"
| "split_sep (c # cs) =
     (if c = CHR ''/'' then [] # split_sep cs
      else (case split_sep cs of
              [] \<Rightarrow> [[c]]
            | p # ps \<Rightarrow> (c # p) # ps))"

text \<open>
  \<^verbatim>\<open>Path(p).name\<close> of pathlib on POSIX: the path is split at \<open>/\<close>, empty components and
  \<open>.\<close> components are dropped, and the name is the last component left (empty when
  none is left).
\<close>

definition path_name :: "path \<Rightarrow> string" where
  "path_name p =
     (case filter (\<lambda>s. s \<noteq> [] \<and> s \<noteq> ''.'') (split_sep p) of
        [] \<Rightarrow> []
      | x # xs \<Rightarrow> last (x # xs))"

text \<open>
  \<^verbatim>\<open>Path(p).suffix\<close> and \<^verbatim>\<open>Path(p).stem\<close> (pathlib of Python 3.8 to 3.13):
  with \<open>i = name.rfind('.')\<close>, the suffix is \<open>name[i:]\<close> and the stem \<open>name[:i]\<close>
  when \<open>0 < i < len(name) - 1\<close>; otherwise the suffix is empty and the stem is the name.
\<close>

definition path_suffix :: "path \<Rightarrow> string" where
  "path_suffix p =
     (let name = path_name p
      in case rfind CHR ''.'' name of
           None \<Rightarrow> []
         | Some i \<Rightarrow> if 0 < i \<and> i + 1 < length name then drop i name else [])"

definition path_stem :: "path \<Rightarrow> string" where
  "path_stem p =
     (let name = path_name p
      in case rfind CHR ''.'' name of
           None \<Rightarrow> name
         | Some i \<Rightarrow> if 0 < i \<and> i + 1 < length name then take i name else name)"

text \<open>\<^verbatim>\<open>os.path.basename\<close>, \<^verbatim>\<open>os.path.dirname\<close> and \<^verbatim>\<open>os.path.join\<close> of posixpath.\<close>

definition os_path_basename :: "path \<Rightarrow> string" where
  "os_path_basename p =
     (case rfind CHR ''/'' p of None \<Rightarrow> p | Some i \<Rightarrow> drop (Suc i) p)"

definition rstrip_sep :: "string \<Rightarrow> string" where
  "rstrip_sep s = rev (dropWhile (\<lambda>c. c = CHR ''/'') (rev s))"

definition os_path_dirname :: "path \<Rightarrow> string" where
  "os_path_dirname p =
     (let hd_part = (case rfind CHR ''/'' p of None \<Rightarrow> [] | Some i \<Rightarrow> take (Suc i) p)
      in if hd_part \<noteq> [] \<and> hd_part \<noteq> replicate (length hd_part) CHR ''/''
         then rstrip_sep hd_part else hd_part)"

definition os_path_join :: "path \<Rightarrow> string \<Rightarrow> path" where
  "os_path_join a b =
     (if b \<noteq> [] \<and> hd b = CHR ''/'' then b
      else if a = [] \<or> last a = CHR ''/'' then a @ b
      else a @ ''/'' @ b)"

text \<open>\<^verbatim>\<open>s.endswith(t)\<close>.\<close>

definition endswith :: "string \<Rightarrow> string \<Rightarrow> bool" where
  "endswith s t = (length t \<le> length s \<and> drop (length s - length t) s = t)"

section \<open>Files, exceptions and the validators\<close>

text \<open>
  The file system is a flat map from paths to nodes: a regular file with its bytes, or a
  directory with the size that \<^verbatim>\<open>stat\<close> reports for it. A raised exception is a value
  of \<open>exn\<close>, and a function that may raise returns \<open>exn + 'a\<close> with \<open>Inl\<close> the
  exception.
\<close>

datatype node = File string | Dir nat

type_synonym filesystem = "path \<Rightarrow> node option"

datatype exn =
    FileNotFoundError string
  | ValueError string
  | IsADirectoryError string
  | NotADirectoryError string
  | AttributeError string
  | TypeError string
  | OSError string
  | LibraryError string

definition os_path_exists :: "filesystem \<Rightarrow> path \<Rightarrow> bool" where
  "os_path_exists fsys p = (fsys p \<noteq> None)"

definition supported_video_formats :: "string list" where
  "supported_video_formats =
     [''.mp4'', ''.avi'', ''.mkv'', ''.mov'', ''.wmv'', ''.flv'', ''.webm'', ''.m4v'']"

definition supported_audio_formats :: "string list" where
  "supported_audio_formats = [''.mp3'', ''.flac'', ''.wav'', ''.aac'', ''.ogg'']"

text \<open>
  \<^verbatim>\<open>AudioExtractor.validate_input_file\<close>: raises \<^verbatim>\<open>FileNotFoundError\<close> (carrying the
  path) when the path does not exist, then \<^verbatim>\<open>ValueError\<close> (carrying the lower-cased
  suffix) when the suffix is not a supported video format, and returns \<open>True\<close> otherwise.
\<close>

definition validate_input_file :: "filesystem \<Rightarrow> path \<Rightarrow> exn + bool" where
  "validate_input_file fsys input_path =
     (if \<not> os_path_exists fsys input_path then Inl (FileNotFoundError input_path)
      else let file_ext = lower (path_suffix input_path)
           in if file_ext \<notin> set supported_video_formats then Inl (ValueError file_ext)
              else Inr True)"

text \<open>
  \<^verbatim>\<open>AudioExtractor.validate_output_format\<close>: raises \<^verbatim>\<open>ValueError\<close> when the lower-cased
  suffix is not a supported audio format and returns the lower-cased suffix otherwise.
\<close>

definition validate_output_format :: "path \<Rightarrow> exn + string" where
  "validate_output_format output_path =
     (let file_ext = lower (path_suffix output_path)
      in if file_ext \<notin> set supported_audio_formats then Inl (ValueError file_ext)
         else Inr file_ext)"

text \<open>
  \<^verbatim>\<open>s.replace(old, new)\<close>: every occurrence of \<open>old\<close>, found from the left without
  overlap, is replaced; an empty \<open>old\<close> matches before every character and at the end.
\<close>

function replace_str :: "string \<Rightarrow> string \<Rightarrow> string \<Rightarrow> string" where
  "replace_str s old new =
     (if old = [] then new @ concat (map (\<lambda>c. c # new) s)
      else if s = [] then []
      else if take (length old) s = old
           then new @ replace_str (drop (length old) s) old new
           else hd s # replace_str (tl s) old new)"
  by pat_completeness auto
termination
  by (relation "measure (\<lambda>(s, old, new). length s)") auto

declare replace_str.simps [simp del]

text \<open>\<^verbatim>\<open>os.remove\<close>, \<^verbatim>\<open>os.rename\<close>, \<^verbatim>\<open>os.path.getsize\<close>, and writing or reading a whole file.\<close>

definition os_remove :: "filesystem \<Rightarrow> path \<Rightarrow> exn + filesystem" where
  "os_remove fsys p =
     (case fsys p of
        None \<Rightarrow> Inl (FileNotFoundError p)
      | Some (Dir _) \<Rightarrow> Inl (IsADirectoryError p)
      | Some (File _) \<Rightarrow> Inr (fsys(p := None)))"

definition os_rename :: "filesystem \<Rightarrow> path \<Rightarrow> path \<Rightarrow> exn + filesystem" where
  "os_rename fsys src dst =
     (case fsys src of
        None \<Rightarrow> Inl (FileNotFoundError src)
      | Some (File c) \<Rightarrow>
          (case fsys dst of
             Some (Dir _) \<Rightarrow> Inl (IsADirectoryError dst)
           | _ \<Rightarrow> Inr ((fsys(src := None))(dst \<mapsto> File c)))
      | Some (Dir n) \<Rightarrow>
          (case fsys dst of
             Some (File _) \<Rightarrow> Inl (NotADirectoryError dst)
           | _ \<Rightarrow> Inr ((fsys(src := None))(dst \<mapsto> Dir n))))"

definition os_path_getsize :: "filesystem \<Rightarrow> path \<Rightarrow> exn + nat" where
  "os_path_getsize fsys p =
     (case fsys p of
        None \<Rightarrow> Inl (FileNotFoundError p)
      | Some (File c) \<Rightarrow> Inr (length c)
      | Some (Dir n) \<Rightarrow> Inr n)"

definition write_file :: "filesystem \<Rightarrow> path \<Rightarrow> string \<Rightarrow> exn + filesystem" where
  "write_file fsys p bytes =
     (case fsys p of
        Some (Dir _) \<Rightarrow> Inl (IsADirectoryError p)
      | _ \<Rightarrow> Inr (fsys(p \<mapsto> File bytes)))"

definition read_file :: "filesystem \<Rightarrow> path \<Rightarrow> exn + string" where
  "read_file fsys p =
     (case fsys p of
        None \<Rightarrow> Inl (FileNotFoundError p)
      | Some (Dir _) \<Rightarrow> Inl (IsADirectoryError p)
      | Some (File c) \<Rightarrow> Inr c)"

section \<open>The outside world\<close>

text \<open>
  What the external programs and libraries do is not in the repository, so it is a
  parameter of the model: \<open>subprocess_run\<close> is \<^verbatim>\<open>subprocess.run(cmd, capture_output=True,
  text=True)\<close>, which may change the disk and either raises or returns the completed
  process; \<open>os_makedirs\<close> is \<^verbatim>\<open>os.makedirs\<close>; \<open>VideoFileClip\<close> is the moviepy class
  (\<open>None\<close> when both imports at the top of the module failed), whose result tells
  whether the clip has an audio track; \<open>write_audiofile\<close> is the method of the audio
  clip of the video at the first path, writing to the second; \<open>from_wav\<close> and
  \<open>segment_export\<close> are \<^verbatim>\<open>AudioSegment.from_wav\<close> and \<^verbatim>\<open>AudioSegment.export\<close> of pydub
  (segment, output path, format, bitrate); \<open>parse_audio_stream\<close> is \<^verbatim>\<open>json.loads\<close>
  followed by the scan of \<^verbatim>\<open>get_audio_info\<close> for the first audio stream, the values
  rendered as text.
\<close>

record completed_process =
  returncode :: int
  stdout :: string
  stderr :: string

record audio_info =
  codec :: string
  sample_rate :: string
  channels :: string
  bit_rate :: string
  duration :: string

record env =
  subprocess_run :: "string list \<Rightarrow> filesystem \<Rightarrow> filesystem \<times> (exn + completed_process)"
  os_makedirs :: "path \<Rightarrow> filesystem \<Rightarrow> exn + filesystem"
  VideoFileClip :: "(path \<Rightarrow> filesystem \<Rightarrow> exn + bool) option"
  write_audiofile :: "path \<Rightarrow> path \<Rightarrow> filesystem \<Rightarrow> filesystem \<times> (exn + unit)"
  from_wav :: "path \<Rightarrow> filesystem \<Rightarrow> exn + string"
  segment_export ::
    "string \<Rightarrow> path \<Rightarrow> string \<Rightarrow> string option \<Rightarrow> filesystem \<Rightarrow> filesystem \<times> (exn + unit)"
  parse_audio_stream :: "string \<Rightarrow> exn + audio_info option"

text \<open>
  One constructor for each message that the program appends to
  \<^verbatim>\<open>st.session_state.log_messages\<close>, carrying the values the message interpolates.
\<close>

datatype log_entry =
    LogFfmpegCommand "string list"
  | LogFfmpegError string
  | LogExtractionDone path
  | LogFfmpegException exn
  | LogMoviepyStart
  | LogMoviepyDone path
  | LogMoviepyException exn
  | LogConvertException exn
  | LogProbeException exn
  | LogInputFile path
  | LogOutputFile path
  | LogOutputFormat string
  | LogOriginalInfo
  | LogExtractedInfo
  | LogCodec string
  | LogSampleRate string
  | LogChannels string
  | LogBitRate string
  | LogDuration string
  | LogFfmpegRetry
  | LogFileSize nat
  | LogSuccess
  | LogFailure
  | LogError exn
  | LogFileHeader nat nat string
  | LogItemOk string
  | LogItemFail string

datatype clip = VideoClip path | AudioClip path

text \<open>
  The state the program works on: the disk, the session's log, result list and
  completion flag, and the moviepy clips that are open.
\<close>

record world =
  disk :: filesystem
  log_messages :: "log_entry list"
  open_clips :: "clip list"
  output_audio_paths :: "path list"
  processing_complete :: bool

definition append_log :: "log_entry \<Rightarrow> world \<Rightarrow> world" where
  "append_log e w = w\<lparr>log_messages := log_messages w @ [e]\<rparr>"

definition append_logs :: "log_entry list \<Rightarrow> world \<Rightarrow> world" where
  "append_logs es w = w\<lparr>log_messages := log_messages w @ es\<rparr>"

definition close_clip :: "clip \<Rightarrow> world \<Rightarrow> world" where
  "close_clip c w = w\<lparr>open_clips := remove1 c (open_clips w)\<rparr>"

section \<open>The primary extractor\<close>

text \<open>The command list that \<^verbatim>\<open>extract_audio_with_ffmpeg\<close> builds, branch by branch.\<close>

definition ffmpeg_cmd :: "path \<Rightarrow> path \<Rightarrow> string \<Rightarrow> string list" where
  "ffmpeg_cmd input_path output_path format_type =
     (if format_type = ''.mp3'' then
        [''ffmpeg'', ''-i'', input_path, ''-vn'', ''-acodec'', ''libmp3lame'',
         ''-ab'', ''320k'', ''-ar'', ''44100'', ''-ac'', ''2'', ''-y'', output_path]
      else if format_type = ''.flac'' then
        [''ffmpeg'', ''-i'', input_path, ''-vn'', ''-acodec'', ''flac'',
         ''-compression_level'', ''8'', ''-y'', output_path]
      else if format_type = ''.wav'' then
        [''ffmpeg'', ''-i'', input_path, ''-vn'', ''-acodec'', ''pcm_s16le'',
         ''-y'', output_path]
      else
        [''ffmpeg'', ''-i'', input_path, ''-vn'', ''-acodec'', ''copy'',
         ''-y'', output_path])"

text \<open>
  \<^verbatim>\<open>AudioExtractor.extract_audio_with_ffmpeg\<close>: logs the command, runs it, and returns
  \<open>False\<close> with a log entry when the run raises or the return code is not 0.
\<close>

definition extract_audio_with_ffmpeg ::
  "env \<Rightarrow> world \<Rightarrow> path \<Rightarrow> path \<Rightarrow> string \<Rightarrow> world \<times> bool" where
  "extract_audio_with_ffmpeg ev w input_path output_path format_type =
     (let cmd = ffmpeg_cmd input_path output_path format_type;
          w1 = append_log (LogFfmpegCommand cmd) w
      in case subprocess_run ev cmd (disk w1) of
           (d, Inl e) \<Rightarrow> (append_log (LogFfmpegException e) (w1\<lparr>disk := d\<rparr>), False)
         | (d, Inr result) \<Rightarrow>
             if returncode result \<noteq> 0
             then (append_log (LogFfmpegError (stderr result)) (w1\<lparr>disk := d\<rparr>), False)
             else (append_log (LogExtractionDone output_path) (w1\<lparr>disk := d\<rparr>), True))"

section \<open>The fallback extractor\<close>

text \<open>
  \<^verbatim>\<open>AudioExtractor.convert_audio_format\<close>: loads the WAV file and exports it in the format
  named by the suffix of the output path without its dot (with bitrate 320k for mp3);
  an exception of either call is logged and turned into \<open>False\<close>.
\<close>

definition convert_audio_format :: "env \<Rightarrow> world \<Rightarrow> path \<Rightarrow> path \<Rightarrow> world \<times> bool" where
  "convert_audio_format ev w input_audio_path output_path =
     (case from_wav ev input_audio_path (disk w) of
        Inl e \<Rightarrow> (append_log (LogConvertException e) w, False)
      | Inr audio \<Rightarrow>
          (let output_format = drop 1 (path_suffix output_path);
               (d, r) =
                 (if output_format = ''mp3''
                  then segment_export ev audio output_path ''mp3'' (Some ''320k'') (disk w)
                  else if output_format = ''flac''
                  then segment_export ev audio output_path ''flac'' None (disk w)
                  else segment_export ev audio output_path output_format None (disk w))
           in case r of
                Inl e \<Rightarrow> (append_log (LogConvertException e) (w\<lparr>disk := d\<rparr>), False)
              | Inr _ \<Rightarrow> (w\<lparr>disk := d\<rparr>, True)))"

text \<open>
  Lines 141 to 151 of \<^verbatim>\<open>extract_audio_with_moviepy\<close>: convert and remove the temporary
  file, or rename it when the output path ends with \<open>.wav\<close>; then close the video and
  the audio clip and log. The result of \<^verbatim>\<open>convert_audio_format\<close> is not looked at.
\<close>

definition moviepy_finish ::
  "env \<Rightarrow> world \<Rightarrow> path \<Rightarrow> path \<Rightarrow> path \<Rightarrow> world \<times> (exn + bool)" where
  "moviepy_finish ev w input_path temp_wav output_path =
     (let r =
        (if \<not> endswith output_path ''.wav''
         then (let (w1, converted) = convert_audio_format ev w temp_wav output_path
               in case os_remove (disk w1) temp_wav of
                    Inl e \<Rightarrow> (w1, Inl e)
                  | Inr d \<Rightarrow> (w1\<lparr>disk := d\<rparr>, Inr ()))
         else (case os_rename (disk w) temp_wav output_path of
                 Inl e \<Rightarrow> (w, Inl e)
               | Inr d \<Rightarrow> (w\<lparr>disk := d\<rparr>, Inr ())))
      in case r of
           (w2, Inl e) \<Rightarrow> (w2, Inl e)
         | (w2, Inr _) \<Rightarrow>
             (append_log (LogMoviepyDone output_path)
                (close_clip (AudioClip input_path) (close_clip (VideoClip input_path) w2)),
              Inr True))"

text \<open>
  The body of the \<^verbatim>\<open>try\<close> of \<^verbatim>\<open>extract_audio_with_moviepy\<close>. Calling
  \<^verbatim>\<open>VideoFileClip\<close> when it is \<open>None\<close> raises \<^verbatim>\<open>TypeError\<close>; a video without an audio
  track has \<^verbatim>\<open>video.audio\<close> equal to \<open>None\<close>, and calling its \<^verbatim>\<open>write_audiofile\<close>
  raises \<^verbatim>\<open>AttributeError\<close>.
\<close>

definition moviepy_body :: "env \<Rightarrow> world \<Rightarrow> path \<Rightarrow> path \<Rightarrow> world \<times> (exn + bool)" where
  "moviepy_body ev w input_path output_path =
     (let w1 = append_log LogMoviepyStart w
      in case VideoFileClip ev of
           None \<Rightarrow> (w1, Inl (TypeError ''VideoFileClip''))
         | Some open_video \<Rightarrow>
             (case open_video input_path (disk w1) of
                Inl e \<Rightarrow> (w1, Inl e)
              | Inr has_audio \<Rightarrow>
                  (let w2 = w1\<lparr>open_clips := open_clips w1 @ VideoClip input_path #
                                  (if has_audio then [AudioClip input_path] else [])\<rparr>;
                       temp_wav = replace_str output_path (path_suffix output_path) ''_temp.wav''
                   in if \<not> has_audio then (w2, Inl (AttributeError ''write_audiofile''))
                      else (case write_audiofile ev input_path temp_wav (disk w2) of
                              (d, Inl e) \<Rightarrow> (w2\<lparr>disk := d\<rparr>, Inl e)
                            | (d, Inr _) \<Rightarrow>
                                moviepy_finish ev (w2\<lparr>disk := d\<rparr>) input_path temp_wav
                                  output_path))))"

text \<open>\<^verbatim>\<open>AudioExtractor.extract_audio_with_moviepy\<close>: the body under its \<^verbatim>\<open>except Exception\<close>.\<close>

definition extract_audio_with_moviepy :: "env \<Rightarrow> world \<Rightarrow> path \<Rightarrow> path \<Rightarrow> world \<times> bool" where
  "extract_audio_with_moviepy ev w input_path output_path =
     (case moviepy_body ev w input_path output_path of
        (w', Inl e) \<Rightarrow> (append_log (LogMoviepyException e) w', False)
      | (w', Inr b) \<Rightarrow> (w', b))"

section \<open>The media inspector and the orchestrator\<close>

definition ffprobe_cmd :: "path \<Rightarrow> string list" where
  "ffprobe_cmd file_path =
     [''ffprobe'', ''-v'', ''quiet'', ''-print_format'', ''json'', ''-show_format'',
      ''-show_streams'', file_path]"

text \<open>
  \<^verbatim>\<open>AudioExtractor.get_audio_info\<close>: the information of the first audio stream when the
  probe returns code 0 and its output parses, \<open>None\<close> otherwise; an exception is logged.
\<close>

definition get_audio_info :: "env \<Rightarrow> world \<Rightarrow> path \<Rightarrow> world \<times> audio_info option" where
  "get_audio_info ev w file_path =
     (case subprocess_run ev (ffprobe_cmd file_path) (disk w) of
        (d, Inl e) \<Rightarrow> (append_log (LogProbeException e) (w\<lparr>disk := d\<rparr>), None)
      | (d, Inr result) \<Rightarrow>
          if returncode result = 0
          then (case parse_audio_stream ev (stdout result) of
                  Inl e \<Rightarrow> (append_log (LogProbeException e) (w\<lparr>disk := d\<rparr>), None)
                | Inr info \<Rightarrow> (w\<lparr>disk := d\<rparr>, info))
          else (w\<lparr>disk := d\<rparr>, None))"

definition info_lines :: "audio_info \<Rightarrow> log_entry list" where
  "info_lines info =
     [LogCodec (codec info), LogSampleRate (sample_rate info), LogChannels (channels info),
      LogBitRate (bit_rate info), LogDuration (duration info)]"

text \<open>
  Lines 222 to 245 of \<^verbatim>\<open>extract_audio\<close>: both validations, the output directory, the
  three log lines and the information of the input. The result is the output format.
\<close>

definition extract_prepare :: "env \<Rightarrow> world \<Rightarrow> path \<Rightarrow> path \<Rightarrow> world \<times> (exn + string)" where
  "extract_prepare ev w input_path output_path =
     (case validate_input_file (disk w) input_path of
        Inl e \<Rightarrow> (w, Inl e)
      | Inr _ \<Rightarrow>
          (case validate_output_format output_path of
             Inl e \<Rightarrow> (w, Inl e)
           | Inr output_format \<Rightarrow>
               (let output_dir = os_path_dirname output_path
                in case (if output_dir \<noteq> [] \<and> \<not> os_path_exists (disk w) output_dir
                         then os_makedirs ev output_dir (disk w) else Inr (disk w)) of
                     Inl e \<Rightarrow> (w, Inl e)
                   | Inr d \<Rightarrow>
                       (let w1 = append_logs
                                   [LogInputFile input_path, LogOutputFile output_path,
                                    LogOutputFormat output_format] (w\<lparr>disk := d\<rparr>);
                            (w2, video_info) = get_audio_info ev w1 input_path
                        in case video_info of
                             None \<Rightarrow> (w2, Inr output_format)
                           | Some info \<Rightarrow>
                               (append_logs (LogOriginalInfo # info_lines info) w2,
                                Inr output_format)))))"

text \<open>Lines 246 to 254: the primary extractor, and the fallback when it reports failure.\<close>

definition extract_attempts ::
  "env \<Rightarrow> world \<Rightarrow> path \<Rightarrow> path \<Rightarrow> string \<Rightarrow> world \<times> bool" where
  "extract_attempts ev w input_path output_path output_format =
     (let (w1, success) = extract_audio_with_ffmpeg ev w input_path output_path output_format
      in if \<not> success
         then extract_audio_with_moviepy ev (append_log LogFfmpegRetry w1) input_path output_path
         else (w1, success))"

text \<open>
  Lines 256 to 275: when an attempt reported success and the output path exists, log its
  information and size and return \<open>True\<close>; otherwise log the failure and return \<open>False\<close>.
\<close>

definition extract_finish :: "env \<Rightarrow> world \<Rightarrow> path \<Rightarrow> bool \<Rightarrow> world \<times> (exn + bool)" where
  "extract_finish ev w output_path success =
     (if success \<and> os_path_exists (disk w) output_path
      then (let (w1, extracted_info) = get_audio_info ev w output_path;
                w2 = (case extracted_info of
                        None \<Rightarrow> w1
                      | Some info \<Rightarrow> append_logs (LogExtractedInfo # info_lines info) w1)
            in case os_path_getsize (disk w2) output_path of
                 Inl e \<Rightarrow> (w2, Inl e)
               | Inr file_size \<Rightarrow>
                   (append_log LogSuccess (append_log (LogFileSize file_size) w2), Inr True))
      else (append_log LogFailure w, Inr False))"

definition extract_audio_body :: "env \<Rightarrow> world \<Rightarrow> path \<Rightarrow> path \<Rightarrow> world \<times> (exn + bool)" where
  "extract_audio_body ev w input_path output_path =
     (case extract_prepare ev w input_path output_path of
        (w1, Inl e) \<Rightarrow> (w1, Inl e)
      | (w1, Inr output_format) \<Rightarrow>
          (let (w2, success) = extract_attempts ev w1 input_path output_path output_format
           in extract_finish ev w2 output_path success))"

text \<open>\<^verbatim>\<open>AudioExtractor.extract_audio\<close>: the body under its \<^verbatim>\<open>except Exception\<close>.\<close>

definition extract_audio :: "env \<Rightarrow> world \<Rightarrow> path \<Rightarrow> path \<Rightarrow> world \<times> bool" where
  "extract_audio ev w input_path output_path =
     (case extract_audio_body ev w input_path output_path of
        (w', Inl e) \<Rightarrow> (append_log (LogError e) w', False)
      | (w', Inr b) \<Rightarrow> (w', b))"

section \<open>The bundler, the batch loop and the downloads\<close>

text \<open>
  The archive is modelled by its members in the order written: a name and the bytes.
  \<^verbatim>\<open>ZipFile.write\<close> of a directory writes a member with a trailing \<open>/\<close> and no bytes.
\<close>

definition zip_write :: "string \<Rightarrow> node \<Rightarrow> string \<times> string" where
  "zip_write arcname n = (case n of File c \<Rightarrow> (arcname, c) | Dir _ \<Rightarrow> (arcname @ ''/'', []))"

text \<open>
  \<^verbatim>\<open>create_zip_file\<close>: the loop over the paths, skipping those that do not exist. The
  function does not use its second argument, the name of the archive.
\<close>

fun create_zip_file :: "filesystem \<Rightarrow> path list \<Rightarrow> string \<Rightarrow> (string \<times> string) list" where
  "create_zip_file fsys [] zip_name = []"
| "create_zip_file fsys (file_path # rest) zip_name =
     (if os_path_exists fsys file_path
      then (case fsys file_path of
              None \<Rightarrow> create_zip_file fsys rest zip_name
            | Some n \<Rightarrow>
                zip_write (os_path_basename file_path) n # create_zip_file fsys rest zip_name)
      else create_zip_file fsys rest zip_name)"

record uploaded_file =
  upload_name :: string
  upload_buffer :: string

record settings =
  filename_prefix :: string
  output_format :: string

text \<open>Lines 389 to 394: the result list, the tally and the log line of one file.\<close>

definition record_outcome ::
  "world \<Rightarrow> bool \<Rightarrow> path \<Rightarrow> string \<Rightarrow> nat \<Rightarrow> world \<times> nat" where
  "record_outcome w success output_audio_path nm successful_extractions =
     (if success
      then (append_log (LogItemOk nm)
              (w\<lparr>output_audio_paths := output_audio_paths w @ [output_audio_path]\<rparr>),
            successful_extractions + 1)
      else (append_log (LogItemFail nm) w, successful_extractions))"

definition staged_path :: "uploaded_file \<Rightarrow> path" where
  "staged_path f = os_path_join ''/tmp'' (upload_name f)"

definition output_path_of :: "settings \<Rightarrow> uploaded_file \<Rightarrow> path" where
  "output_path_of cfg f =
     (let base_name = path_stem (upload_name f);
          output_audio_name =
            (if filename_prefix cfg \<noteq> []
             then filename_prefix cfg @ ''_'' @ base_name @ ''.'' @ output_format cfg
             else base_name @ ''.'' @ output_format cfg)
      in os_path_join ''/tmp'' output_audio_name)"

text \<open>
  The body of the loop of lines 367 to 401 for the file at index \<open>i\<close>: stage the upload,
  extract, record the outcome, remove the staged file. Writing the staged file and
  removing it are outside any \<^verbatim>\<open>try\<close>, so their exception ends the loop.
\<close>

definition process_upload ::
  "env \<Rightarrow> settings \<Rightarrow> nat \<Rightarrow> nat \<Rightarrow> uploaded_file \<Rightarrow> world \<Rightarrow> nat
     \<Rightarrow> world \<times> nat \<times> exn option" where
  "process_upload ev cfg total_files i f w successful_extractions =
     (let input_video_path = staged_path f
      in case write_file (disk w) input_video_path (upload_buffer f) of
           Inl e \<Rightarrow> (w, successful_extractions, Some e)
         | Inr d \<Rightarrow>
             (let output_audio_path = output_path_of cfg f;
                  w2 = append_log (LogFileHeader (i + 1) total_files (upload_name f))
                         (w\<lparr>disk := d\<rparr>);
                  (w3, success) = extract_audio ev w2 input_video_path output_audio_path;
                  (w4, n) = record_outcome w3 success output_audio_path (upload_name f)
                              successful_extractions
              in if os_path_exists (disk w4) input_video_path
                 then (case os_remove (disk w4) input_video_path of
                         Inl e \<Rightarrow> (w4, n, Some e)
                       | Inr d' \<Rightarrow> (w4\<lparr>disk := d'\<rparr>, n, None))
                 else (w4, n, None)))"

fun batch_loop ::
  "env \<Rightarrow> settings \<Rightarrow> nat \<Rightarrow> nat \<Rightarrow> uploaded_file list \<Rightarrow> world \<Rightarrow> nat
     \<Rightarrow> world \<times> nat \<times> exn option" where
  "batch_loop ev cfg total_files i [] w n = (w, n, None)"
| "batch_loop ev cfg total_files i (f # rest) w n =
     (case process_upload ev cfg total_files i f w n of
        (w', n', Some e) \<Rightarrow> (w', n', Some e)
      | (w', n', None) \<Rightarrow> batch_loop ev cfg total_files (Suc i) rest w' n')"

text \<open>
  The handler of the extraction button for a non-empty upload (lines 353 to 404): the
  session state is reset, the loop runs, and the completion flag is set when the loop
  was not ended by an exception.
\<close>

definition start_extraction ::
  "env \<Rightarrow> settings \<Rightarrow> uploaded_file list \<Rightarrow> world \<Rightarrow> world \<times> nat \<times> exn option" where
  "start_extraction ev cfg uploaded_files w =
     (let w0 = w\<lparr>log_messages := [], output_audio_paths := [], processing_complete := False\<rparr>
      in case batch_loop ev cfg (length uploaded_files) 0 uploaded_files w0 0 of
           (w1, n, Some e) \<Rightarrow> (w1, n, Some e)
         | (w1, n, None) \<Rightarrow> (w1\<lparr>processing_complete := True\<rparr>, n, None))"

text \<open>
  The branches of the download section (lines 417 to 442). Each individual button reads
  its file after the existence check; the result lists the file name and the bytes of
  each button. The archive button bundles the paths that exist, when there is one.
\<close>

fun download_individual :: "filesystem \<Rightarrow> path list \<Rightarrow> exn + (string \<times> string) list" where
  "download_individual fsys [] = Inr []"
| "download_individual fsys (output_path # rest) =
     (if os_path_exists fsys output_path
      then (case read_file fsys output_path of
              Inl e \<Rightarrow> Inl e
            | Inr bytes \<Rightarrow>
                (case download_individual fsys rest of
                   Inl e \<Rightarrow> Inl e
                 | Inr buttons \<Rightarrow> Inr ((path_name output_path, bytes) # buttons)))
      else download_individual fsys rest)"

definition download_archive ::
  "settings \<Rightarrow> filesystem \<Rightarrow> path list \<Rightarrow> (string \<times> string) list option" where
  "download_archive cfg fsys paths =
     (let existing_files = filter (os_path_exists fsys) paths
      in if existing_files \<noteq> []
         then Some (create_zip_file fsys existing_files
                      (''extracted_audio_'' @ output_format cfg @ ''.zip''))
         else None)"

text \<open>
  The handler of the extraction button (lines 352 to 411): nothing is done for an empty
  upload. The download section (lines 414 to 442) shows its buttons when the processing
  is complete and the result list is not empty.
\<close>

definition extraction_button ::
  "env \<Rightarrow> settings \<Rightarrow> uploaded_file list \<Rightarrow> world \<Rightarrow> world \<times> (nat \<times> exn option) option" where
  "extraction_button ev cfg uploaded_files w =
     (if uploaded_files \<noteq> []
      then (case start_extraction ev cfg uploaded_files w of (w', r) \<Rightarrow> (w', Some r))
      else (w, None))"

datatype download =
    NoDownload
  | IndividualDownload "exn + (string \<times> string) list"
  | ArchiveDownload "(string \<times> string) list option"

definition download_section :: "settings \<Rightarrow> bool \<Rightarrow> world \<Rightarrow> download" where
  "download_section cfg individual w =
     (if processing_complete w \<and> output_audio_paths w \<noteq> []
      then (if individual then IndividualDownload (download_individual (disk w) (output_audio_paths w))
            else ArchiveDownload (download_archive cfg (disk w) (output_audio_paths w)))
      else NoDownload)"

section \<open>The format table of the specification\<close>


text \<open>The names of the files whose outcome line is in the log, in order.\<close>

fun processed_names :: "log_entry list \<Rightarrow> string list" where
  "processed_names [] = []"
| "processed_names (LogItemOk nm # es) = nm # processed_names es"
| "processed_names (LogItemFail nm # es) = nm # processed_names es"
| "processed_names (e # es) = processed_names es"


text \<open>
  What the extraction of one file leaves alone in the session: the result list and the
  outcome lines of the log.
\<close>

definition session_kept :: "world \<Rightarrow> world \<Rightarrow> bool" where
  "session_kept w w' =
     (output_audio_paths w' = output_audio_paths w \<and>
      processed_names (log_messages w') = processed_names (log_messages w))"

section \<open>Example worlds\<close>

definition empty_world :: world where
  "empty_world =
     \<lparr>disk = (\<lambda>p. None), log_messages = [], open_clips = [], output_audio_paths = [],
      processing_complete = False\<rparr>"

text \<open>A world with one staged video and the directory it is in.\<close>

definition clip_world :: world where
  "clip_world =
     \<lparr>disk = [''/tmp'' \<mapsto> Dir 4096, ''/tmp/clip.mp4'' \<mapsto> File ''video''],
      log_messages = [], open_clips = [], output_audio_paths = [],
      processing_complete = False\<rparr>"

text \<open>No external tool is installed and moviepy could not be imported.\<close>

definition tools_missing :: env where
  "tools_missing =
     \<lparr>subprocess_run = (\<lambda>cmd d. (d, Inl (FileNotFoundError (hd cmd)))),
      os_makedirs = (\<lambda>p d. Inr (d(p \<mapsto> Dir 4096))),
      VideoFileClip = None,
      write_audiofile = (\<lambda>src dst d. (d, Inl (LibraryError ''moviepy''))),
      from_wav = (\<lambda>p d. Inl (LibraryError ''pydub'')),
      segment_export = (\<lambda>seg p fmt br d. (d, Inl (LibraryError ''pydub''))),
      parse_audio_stream = (\<lambda>out. Inr None)\<rparr>"

text \<open>
  Every tool works: the command writes the file named by its last argument when it is an
  ffmpeg command and returns code 0, and the libraries write their output files.
\<close>

definition tools_working :: env where
  "tools_working =
     \<lparr>subprocess_run =
        (\<lambda>cmd d. (if hd cmd = ''ffmpeg'' then d(last cmd \<mapsto> File ''audio'') else d,
                  Inr \<lparr>returncode = 0, stdout = ''{}'', stderr = []\<rparr>)),
      os_makedirs = (\<lambda>p d. Inr (d(p \<mapsto> Dir 4096))),
      VideoFileClip = Some (\<lambda>p d. Inr True),
      write_audiofile = (\<lambda>src dst d. (d(dst \<mapsto> File ''wav''), Inr ())),
      from_wav = (\<lambda>p d. Inr ''wav''),
      segment_export = (\<lambda>seg p fmt br d. (d(p \<mapsto> File ''audio''), Inr ())),
      parse_audio_stream = (\<lambda>out. Inr None)\<rparr>"

text \<open>
  The external tool leaves a partial output file and returns code 1, and moviepy could
  not be imported.
\<close>

definition ffmpeg_partial :: env where
  "ffmpeg_partial =
     tools_missing
       \<lparr>subprocess_run :=
          (\<lambda>cmd d. (if hd cmd = ''ffmpeg'' then d(last cmd \<mapsto> File ''part'') else d,
                    Inr \<lparr>returncode = 1, stdout = [], stderr = ''Conversion failed!''\<rparr>))\<rparr>"

text \<open>The external tool is missing and the video has no audio track.\<close>

definition silent_video :: env where
  "silent_video = tools_missing \<lparr>VideoFileClip := Some (\<lambda>p d. Inr False)\<rparr>"

text \<open>
  The external tool is missing and the audio of the video cannot be decoded to its end:
  \<^verbatim>\<open>write_audiofile\<close> raises after it has created the temporary file.
\<close>

definition broken_audio :: env where
  "broken_audio =
     tools_missing
       \<lparr>VideoFileClip := Some (\<lambda>p d. Inr True),
        write_audiofile := (\<lambda>src dst d. (d(dst \<mapsto> File ''RIFF''), Inl (OSError ''read'')))\<rparr>"

text \<open>
  The external tool is missing, moviepy writes the temporary file, and the export of
  pydub raises.
\<close>

definition export_fails :: env where
  "export_fails =
     tools_missing
       \<lparr>VideoFileClip := Some (\<lambda>p d. Inr True),
        write_audiofile := (\<lambda>src dst d. (d(dst \<mapsto> File ''wav''), Inr ())),
        from_wav := (\<lambda>p d. Inr ''wav''),
        segment_export := (\<lambda>seg p fmt br d. (d, Inl (LibraryError ''encode'')))\<rparr>"

text \<open>A batch of two uploads: a text file and a video, to be extracted as mp3.\<close>

definition mp3_settings :: settings where
  "mp3_settings = \<lparr>filename_prefix = [], output_format = ''mp3''\<rparr>"

definition notes_upload :: uploaded_file where
  "notes_upload = \<lparr>upload_name = ''notes.txt'', upload_buffer = ''text''\<rparr>"

definition clip_upload :: uploaded_file where
  "clip_upload = \<lparr>upload_name = ''clip.mp4'', upload_buffer = ''video''\<rparr>"

section \<open>The validators\<close>

text \<open>
  Claim C1 says that the validator signals a missing input without raising. At a path
  that does not exist \<^verbatim>\<open>validate_input_file\<close> raises \<^verbatim>\<open>FileNotFoundError\<close>: the result
  of the model is \<open>Inl\<close>, a raised exception.
\<close>

theorem validate_input_file_raises_counterexample:
  "validate_input_file (\<lambda>p. None) ''/tmp/clip.mp4'' = Inl (FileNotFoundError ''/tmp/clip.mp4'')"
  by (simp add: validate_input_file_def os_path_exists_def)

text \<open>
  Claim C1, amended: for every input path that does not exist on disk,
  \<^verbatim>\<open>validate_input_file\<close> raises \<^verbatim>\<open>FileNotFoundError\<close> carrying the path, and the exception
  does not leave \<^verbatim>\<open>extract_audio\<close>, which logs it and returns \<open>False\<close> with the disk
  and everything else unchanged.
\<close>

theorem missing_input_raises_not_found:
  "\<not> os_path_exists (disk w) input_path \<Longrightarrow>
     validate_input_file (disk w) input_path = Inl (FileNotFoundError input_path) \<and>
     extract_audio ev w input_path output_path =
       (append_log (LogError (FileNotFoundError input_path)) w, False)"
  by (simp add: validate_input_file_def extract_audio_def extract_audio_body_def
      extract_prepare_def)

theorem missing_input_raises_not_found_witness:
  "validate_input_file (disk empty_world) ''/tmp/clip.mp4'' =
     Inl (FileNotFoundError ''/tmp/clip.mp4'') \<and>
   snd (extract_audio tools_missing empty_world ''/tmp/clip.mp4'' ''/tmp/clip.mp3'') = False"
proof -
  have absent: "\<not> os_path_exists (disk empty_world) ''/tmp/clip.mp4''"
    by (simp add: os_path_exists_def empty_world_def)
  show ?thesis
    using missing_input_raises_not_found [OF absent, of tools_missing "''/tmp/clip.mp3''"]
    by simp
qed

text \<open>
  Claim C2 says that a path with an unsupported extension is rejected as an unsupported
  format whether or not a file exists there. For the input validator the existence check
  comes first: the same path is rejected with \<^verbatim>\<open>FileNotFoundError\<close> when no file is there
  and with \<^verbatim>\<open>ValueError\<close> when one is.
\<close>

theorem unsupported_input_depends_on_existence_counterexample:
  "validate_input_file (\<lambda>p. None) ''/tmp/notes.txt'' =
     Inl (FileNotFoundError ''/tmp/notes.txt'') \<and>
   validate_input_file [''/tmp/notes.txt'' \<mapsto> File ''text''] ''/tmp/notes.txt'' =
     Inl (ValueError ''.txt'')"
  by code_simp

text \<open>
  Claim C2, amended: a path whose lower-cased suffix is outside the output allow-list is
  rejected by \<^verbatim>\<open>validate_output_format\<close> with \<^verbatim>\<open>ValueError\<close>, and that validator does not
  look at the disk; a path whose lower-cased suffix is outside the input allow-list is
  rejected by \<^verbatim>\<open>validate_input_file\<close> on every disk, with \<^verbatim>\<open>ValueError\<close> when the path
  exists and with \<^verbatim>\<open>FileNotFoundError\<close> when it does not.
\<close>

theorem unsupported_extension_rejected:
  "(lower (path_suffix p) \<notin> set supported_audio_formats \<longrightarrow>
      validate_output_format p = Inl (ValueError (lower (path_suffix p)))) \<and>
   (lower (path_suffix p) \<notin> set supported_video_formats \<longrightarrow>
      validate_input_file fsys p =
        (if os_path_exists fsys p then Inl (ValueError (lower (path_suffix p)))
         else Inl (FileNotFoundError p)))"
  by (simp add: validate_input_file_def validate_output_format_def)

theorem unsupported_extension_rejected_witness:
  "validate_output_format ''/tmp/notes.txt'' = Inl (ValueError ''.txt'') \<and>
   validate_input_file [''/tmp/notes.txt'' \<mapsto> File ''text''] ''/tmp/notes.txt'' =
     Inl (ValueError ''.txt'') \<and>
   validate_input_file (\<lambda>p. None) ''/tmp/notes.txt'' =
     Inl (FileNotFoundError ''/tmp/notes.txt'')"
proof -
  have s: "lower (path_suffix ''/tmp/notes.txt'') = ''.txt''"
    by code_simp
  have a: "lower (path_suffix ''/tmp/notes.txt'') \<notin> set supported_audio_formats"
    unfolding s by (simp add: supported_audio_formats_def)
  have v: "lower (path_suffix ''/tmp/notes.txt'') \<notin> set supported_video_formats"
    unfolding s by (simp add: supported_video_formats_def)
  show ?thesis
    using a v s
      unsupported_extension_rejected
        [of "''/tmp/notes.txt''" "[''/tmp/notes.txt'' \<mapsto> File ''text'']"]
      unsupported_extension_rejected [of "''/tmp/notes.txt''" "\<lambda>p. None"]
    by (simp add: os_path_exists_def)
qed

section \<open>The primary extractor and the bundler\<close>



lemma create_zip_file_example:
  "create_zip_file [''/tmp/a.mp3'' \<mapsto> File ''A'', ''/out/b.mp3'' \<mapsto> File ''B'']
     [''/tmp/a.mp3'', ''/tmp/gone.mp3'', ''/out/b.mp3''] ''extracted_audio_mp3.zip'' =
   [(''a.mp3'', ''A''), (''b.mp3'', ''B'')]"
  by code_simp

section \<open>What an extraction leaves alone\<close>

lemma processed_names_append:
  "processed_names (xs @ ys) = processed_names xs @ processed_names ys"
  by (induction xs rule: processed_names.induct) simp_all

lemma session_kept_refl: "session_kept w w"
  by (simp add: session_kept_def)

lemma session_kept_trans: "session_kept w w1 \<Longrightarrow> session_kept w1 w2 \<Longrightarrow> session_kept w w2"
  by (simp add: session_kept_def)

lemma session_kept_disk: "session_kept w (w'\<lparr>disk := d\<rparr>) = session_kept w w'"
  by (simp add: session_kept_def)

lemma session_kept_clips: "session_kept w (w'\<lparr>open_clips := c\<rparr>) = session_kept w w'"
  by (simp add: session_kept_def)

lemma session_kept_close: "session_kept w (close_clip c w') = session_kept w w'"
  by (simp add: session_kept_def close_clip_def)

lemma session_kept_logs:
  "processed_names es = [] \<Longrightarrow> session_kept w (append_logs es w') = session_kept w w'"
  by (simp add: session_kept_def append_logs_def processed_names_append)

lemma session_kept_log:
  "processed_names [e] = [] \<Longrightarrow> session_kept w (append_log e w') = session_kept w w'"
  by (simp add: session_kept_def append_log_def processed_names_append)

lemmas session_kept_simps =
  session_kept_refl session_kept_disk session_kept_clips session_kept_close
  session_kept_logs session_kept_log

lemma ffmpeg_keeps_session:
  "session_kept w (fst (extract_audio_with_ffmpeg ev w i out f))"
  by (simp add: extract_audio_with_ffmpeg_def Let_def session_kept_simps
      split: prod.splits sum.splits)

lemma convert_keeps_session:
  "session_kept w (fst (convert_audio_format ev w i out))"
  by (simp add: convert_audio_format_def Let_def session_kept_simps
      split: prod.splits sum.splits)

lemma probe_keeps_session:
  "session_kept w (fst (get_audio_info ev w p))"
  by (simp add: get_audio_info_def Let_def session_kept_simps
      split: prod.splits sum.splits)

lemma moviepy_finish_keeps_session:
  "session_kept w (fst (moviepy_finish ev w i t out))"
proof -
  have c: "session_kept w (fst (convert_audio_format ev w t out))"
    by (rule convert_keeps_session)
  show ?thesis
    using c
    by (auto simp: moviepy_finish_def Let_def session_kept_simps
        split: prod.splits sum.splits)
qed


lemma moviepy_body_keeps_session:
  "session_kept w (fst (moviepy_body ev w i out))"
proof (cases "VideoFileClip ev")
  case None
  then show ?thesis
    by (simp add: moviepy_body_def Let_def session_kept_simps)
next
  case (Some open_video)
  show ?thesis
  proof (cases "open_video i (disk (append_log LogMoviepyStart w))")
    case (Inl e)
    with Some show ?thesis
      by (simp add: moviepy_body_def Let_def session_kept_simps)
  next
    case (Inr has_audio)
    show ?thesis
    proof (cases has_audio)
      case False
      with Some Inr show ?thesis
        by (simp add: moviepy_body_def Let_def session_kept_simps)
    next
      case True
      define w2 where "w2 = (append_log LogMoviepyStart w)
        \<lparr>open_clips := open_clips (append_log LogMoviepyStart w) @
           [VideoClip i, AudioClip i]\<rparr>"
      define t where "t = replace_str out (path_suffix out) ''_temp.wav''"
      have k2: "session_kept w w2"
        by (simp add: w2_def session_kept_simps)
      obtain d r where wr: "write_audiofile ev i t (disk w2) = (d, r)"
        by (cases "write_audiofile ev i t (disk w2)")
      have k3: "session_kept w (w2\<lparr>disk := d\<rparr>)"
        using k2 by (simp add: session_kept_simps)
      have k4: "session_kept w (fst (moviepy_finish ev (w2\<lparr>disk := d\<rparr>) i t out))"
        using k3 moviepy_finish_keeps_session session_kept_trans by blast
      have body: "moviepy_body ev w i out =
        (case r of Inl e \<Rightarrow> (w2\<lparr>disk := d\<rparr>, Inl e)
         | Inr u \<Rightarrow> moviepy_finish ev (w2\<lparr>disk := d\<rparr>) i t out)"
        using Some Inr True wr unfolding w2_def t_def
        by (simp add: moviepy_body_def Let_def)
      show ?thesis
        using k3 k4 by (simp add: body split: sum.splits)
    qed
  qed
qed


lemma moviepy_keeps_session:
  "session_kept w (fst (extract_audio_with_moviepy ev w i out))"
proof (cases "moviepy_body ev w i out")
  case (Pair w' r)
  have "session_kept w w'"
    using moviepy_body_keeps_session [of w ev i out] Pair by simp
  then show ?thesis
    using Pair
    by (simp add: extract_audio_with_moviepy_def session_kept_simps split: sum.splits)
qed

lemma attempts_keep_session:
  "session_kept w (fst (extract_attempts ev w i out f))"
proof (cases "extract_audio_with_ffmpeg ev w i out f")
  case (Pair w1 success)
  have a: "session_kept w w1"
    using ffmpeg_keeps_session [of w ev i out f] Pair by simp
  have b: "session_kept w (append_log LogFfmpegRetry w1)"
    using a by (simp add: session_kept_simps)
  have c: "session_kept w (fst (extract_audio_with_moviepy ev (append_log LogFfmpegRetry w1) i out))"
    using b moviepy_keeps_session session_kept_trans by blast
  show ?thesis
    using a c Pair by (simp add: extract_attempts_def)
qed

lemma info_lines_no_outcome: "processed_names (x # info_lines info) = processed_names [x]"
  by (cases x) (simp_all add: info_lines_def)

lemma probe_and_log_keeps_session:
  assumes "session_kept w w1" and "processed_names [x] = []"
  shows "session_kept w
           (case snd (get_audio_info ev w1 p) of
              None \<Rightarrow> fst (get_audio_info ev w1 p)
            | Some info \<Rightarrow> append_logs (x # info_lines info) (fst (get_audio_info ev w1 p)))"
proof -
  have k: "session_kept w (fst (get_audio_info ev w1 p))"
    using assms(1) probe_keeps_session session_kept_trans by blast
  show ?thesis
    using k assms(2)
    by (simp add: session_kept_simps info_lines_no_outcome split: option.splits)
qed

lemma prepare_keeps_session:
  "session_kept w (fst (extract_prepare ev w i out))"
proof (cases "validate_input_file (disk w) i")
  case (Inl e)
  then show ?thesis by (simp add: extract_prepare_def session_kept_simps)
next
  case vin: (Inr b)
  show ?thesis
  proof (cases "validate_output_format out")
    case (Inl e)
    with vin show ?thesis by (simp add: extract_prepare_def session_kept_simps)
  next
    case vout: (Inr fmt)
    define r where "r = (if os_path_dirname out \<noteq> [] \<and> \<not> os_path_exists (disk w) (os_path_dirname out)
                         then os_makedirs ev (os_path_dirname out) (disk w) else Inr (disk w))"
    show ?thesis
    proof (cases r)
      case (Inl e)
      with vin vout show ?thesis
        unfolding r_def by (simp add: extract_prepare_def Let_def session_kept_simps)
    next
      case (Inr d)
      define w1 where "w1 = append_logs [LogInputFile i, LogOutputFile out, LogOutputFormat fmt]
                              (w\<lparr>disk := d\<rparr>)"
      have k1: "session_kept w w1"
        by (simp add: w1_def session_kept_simps)
      have k2: "session_kept w
           (case snd (get_audio_info ev w1 i) of
              None \<Rightarrow> fst (get_audio_info ev w1 i)
            | Some info \<Rightarrow> append_logs (LogOriginalInfo # info_lines info) (fst (get_audio_info ev w1 i)))"
        by (rule probe_and_log_keeps_session [OF k1]) simp
      have eq: "fst (extract_prepare ev w i out) =
           (case snd (get_audio_info ev w1 i) of
              None \<Rightarrow> fst (get_audio_info ev w1 i)
            | Some info \<Rightarrow> append_logs (LogOriginalInfo # info_lines info) (fst (get_audio_info ev w1 i)))"
        using vin vout Inr unfolding r_def w1_def
        by (simp add: extract_prepare_def Let_def split: prod.splits option.splits)
      show ?thesis using k2 by (simp add: eq)
    qed
  qed
qed

lemma finish_keeps_session:
  "session_kept w (fst (extract_finish ev w out success))"
proof (cases "success \<and> os_path_exists (disk w) out")
  case False
  then show ?thesis by (auto simp: extract_finish_def session_kept_simps)
next
  case True
  define w2 where "w2 =
           (case snd (get_audio_info ev w out) of
              None \<Rightarrow> fst (get_audio_info ev w out)
            | Some info \<Rightarrow> append_logs (LogExtractedInfo # info_lines info) (fst (get_audio_info ev w out)))"
  have k2: "session_kept w w2"
    unfolding w2_def by (rule probe_and_log_keeps_session [OF session_kept_refl]) simp
  have eq: "extract_finish ev w out success =
     (case os_path_getsize (disk w2) out of
        Inl e \<Rightarrow> (w2, Inl e)
      | Inr file_size \<Rightarrow> (append_log LogSuccess (append_log (LogFileSize file_size) w2), Inr True))"
    using True unfolding w2_def
    by (simp add: extract_finish_def Let_def split_beta)
  show ?thesis
    using k2 by (simp add: eq session_kept_simps split: sum.splits)
qed

lemma body_keeps_session:
  "session_kept w (fst (extract_audio_body ev w i out))"
proof (cases "extract_prepare ev w i out")
  case (Pair w1 r)
  have k1: "session_kept w w1"
    using prepare_keeps_session [of w ev i out] Pair by simp
  show ?thesis
  proof (cases r)
    case (Inl e)
    with Pair k1 show ?thesis by (simp add: extract_audio_body_def)
  next
    case (Inr fmt)
    obtain w2 success where at: "extract_attempts ev w1 i out fmt = (w2, success)"
      by (cases "extract_attempts ev w1 i out fmt")
    have k2: "session_kept w w2"
      using k1 attempts_keep_session [of w1 ev i out fmt] at session_kept_trans by fastforce
    have k3: "session_kept w (fst (extract_finish ev w2 out success))"
      using k2 finish_keeps_session session_kept_trans by blast
    show ?thesis
      using Pair Inr at k3 by (simp add: extract_audio_body_def)
  qed
qed

lemma extract_audio_keeps_session:
  "session_kept w (fst (extract_audio ev w i out))"
proof (cases "extract_audio_body ev w i out")
  case (Pair w' r)
  have "session_kept w w'"
    using body_keeps_session [of w ev i out] Pair by simp
  then show ?thesis
    using Pair by (simp add: extract_audio_def session_kept_simps split: sum.splits)
qed

section \<open>The outcome of one extraction\<close>

lemma probe_and_log_disk:
  "disk (case snd (get_audio_info ev w p) of
           None \<Rightarrow> fst (get_audio_info ev w p)
         | Some info \<Rightarrow> append_logs (x # info_lines info) (fst (get_audio_info ev w p))) =
   disk (fst (get_audio_info ev w p))"
  by (simp add: append_logs_def split: option.splits)

lemma getsize_ok_iff:
  "(\<exists>n. os_path_getsize fsys p = Inr n) = os_path_exists fsys p"
  by (auto simp: os_path_getsize_def os_path_exists_def split: option.splits node.splits)

lemma finish_result:
  "snd (extract_finish ev w out success) =
     (if success \<and> os_path_exists (disk w) out
      then (if os_path_exists (disk (fst (get_audio_info ev w out))) out then Inr True
            else Inl (FileNotFoundError out))
      else Inr False)"
proof (cases "success \<and> os_path_exists (disk w) out")
  case False
  then show ?thesis by (auto simp: extract_finish_def)
next
  case True
  define w2 where "w2 =
           (case snd (get_audio_info ev w out) of
              None \<Rightarrow> fst (get_audio_info ev w out)
            | Some info \<Rightarrow> append_logs (LogExtractedInfo # info_lines info) (fst (get_audio_info ev w out)))"
  have d: "disk w2 = disk (fst (get_audio_info ev w out))"
    unfolding w2_def by (rule probe_and_log_disk)
  have eq: "extract_finish ev w out success =
     (case os_path_getsize (disk w2) out of
        Inl e \<Rightarrow> (w2, Inl e)
      | Inr file_size \<Rightarrow> (append_log LogSuccess (append_log (LogFileSize file_size) w2), Inr True))"
    using True unfolding w2_def
    by (simp add: extract_finish_def Let_def split_beta)
  show ?thesis
    unfolding eq using True
    by (auto simp: d os_path_getsize_def os_path_exists_def
        split: sum.splits option.splits node.splits)
qed

lemma finish_true_exists:
  "snd (extract_finish ev w out success) = Inr True \<Longrightarrow>
     os_path_exists (disk (fst (extract_finish ev w out success))) out"
proof (cases "success \<and> os_path_exists (disk w) out")
  case False
  assume "snd (extract_finish ev w out success) = Inr True"
  with False show ?thesis by (auto simp: extract_finish_def)
next
  case True
  assume t: "snd (extract_finish ev w out success) = Inr True"
  define w2 where "w2 =
           (case snd (get_audio_info ev w out) of
              None \<Rightarrow> fst (get_audio_info ev w out)
            | Some info \<Rightarrow> append_logs (LogExtractedInfo # info_lines info) (fst (get_audio_info ev w out)))"
  have eq: "extract_finish ev w out success =
     (case os_path_getsize (disk w2) out of
        Inl e \<Rightarrow> (w2, Inl e)
      | Inr file_size \<Rightarrow> (append_log LogSuccess (append_log (LogFileSize file_size) w2), Inr True))"
    using True unfolding w2_def
    by (simp add: extract_finish_def Let_def split_beta)
  show ?thesis
    using t unfolding eq
    by (auto simp: os_path_getsize_def os_path_exists_def append_log_def
        split: sum.splits option.splits node.splits)
qed

text \<open>
  Claim C3 says that an item is successful if and only if the output file exists after
  the attempts. Here the external tool leaves a partial output file and returns code 1,
  and the fallback fails: the output file exists after both attempts and
  \<^verbatim>\<open>extract_audio\<close> returns \<open>False\<close>.
\<close>

theorem output_exists_but_failed_counterexample:
  "os_path_exists
     (disk (fst (extract_attempts ffmpeg_partial
                   (fst (extract_prepare ffmpeg_partial clip_world ''/tmp/clip.mp4'' ''/tmp/clip.mp3''))
                   ''/tmp/clip.mp4'' ''/tmp/clip.mp3'' ''.mp3'')))
     ''/tmp/clip.mp3'' \<and>
   snd (extract_audio ffmpeg_partial clip_world ''/tmp/clip.mp4'' ''/tmp/clip.mp3'') = False"
  by code_simp

text \<open>
  Claim C3, amended: \<^verbatim>\<open>extract_audio\<close> returns \<open>True\<close> if and only if the validations and
  the output directory succeed, an attempt (the primary one, or the fallback after the
  primary one failed) reports success, the output path exists on disk after the
  attempts, and it is still there after the probe that logs its media information, when
  its size is read. An output file left by attempts that both report failure does not
  make the item successful.
\<close>

theorem extract_audio_success_iff:
  "snd (extract_audio ev w input_path output_path) =
     (case extract_prepare ev w input_path output_path of
        (w1, Inl e) \<Rightarrow> False
      | (w1, Inr fmt) \<Rightarrow>
          (let (w2, success) = extract_attempts ev w1 input_path output_path fmt
           in success \<and> os_path_exists (disk w2) output_path \<and>
              os_path_exists (disk (fst (get_audio_info ev w2 output_path))) output_path))"
proof (cases "extract_prepare ev w input_path output_path")
  case (Pair w1 r)
  show ?thesis
  proof (cases r)
    case (Inl e)
    with Pair show ?thesis
      by (simp add: extract_audio_def extract_audio_body_def)
  next
    case (Inr fmt)
    obtain w2 success where at: "extract_attempts ev w1 input_path output_path fmt = (w2, success)"
      by (cases "extract_attempts ev w1 input_path output_path fmt")
    have "snd (extract_audio ev w input_path output_path) =
            (case snd (extract_finish ev w2 output_path success) of Inl e \<Rightarrow> False | Inr b \<Rightarrow> b)"
      using Pair Inr at
      by (simp add: extract_audio_def extract_audio_body_def split_beta split: sum.splits)
    then show ?thesis
      using Pair Inr at by (auto simp: finish_result)
  qed
qed

lemma extract_audio_example:
  "snd (extract_audio tools_working clip_world ''/tmp/clip.mp4'' ''/tmp/clip.mp3'') = True"
  by code_simp

section \<open>The fallback extractor on its failure paths\<close>

text \<open>
  Claim C4 holds that after every run of the fallback extractor the temporary file is
  gone and both clips are closed. The clean-up of \<^verbatim>\<open>extract_audio_with_moviepy\<close> is on
  the path without exception only. For a video without an audio track the video clip is
  still open when the function returns \<open>False\<close>; when writing the audio raises after the
  temporary file was created, both clips are still open and the temporary file remains.
\<close>

theorem fallback_leaves_clips_and_temp_file:
  "snd (extract_audio_with_moviepy silent_video clip_world ''/tmp/clip.mp4'' ''/tmp/clip.mp3'') = False \<and>
   open_clips (fst (extract_audio_with_moviepy silent_video clip_world ''/tmp/clip.mp4'' ''/tmp/clip.mp3'')) =
     [VideoClip ''/tmp/clip.mp4''] \<and>
   snd (extract_audio_with_moviepy broken_audio clip_world ''/tmp/clip.mp4'' ''/tmp/clip.mp3'') = False \<and>
   open_clips (fst (extract_audio_with_moviepy broken_audio clip_world ''/tmp/clip.mp4'' ''/tmp/clip.mp3'')) =
     [VideoClip ''/tmp/clip.mp4'', AudioClip ''/tmp/clip.mp4''] \<and>
   disk (fst (extract_audio_with_moviepy broken_audio clip_world ''/tmp/clip.mp4'' ''/tmp/clip.mp3''))
     ''/tmp/clip_temp.wav'' = Some (File ''RIFF'')"
  by code_simp

text \<open>
  Claim C5 holds that an exception of the conversion makes the fallback extractor return
  \<open>False\<close>. \<^verbatim>\<open>convert_audio_format\<close> catches and logs the exception and returns \<open>False\<close>,
  and \<^verbatim>\<open>extract_audio_with_moviepy\<close> discards that result: with an export that raises
  it logs completion and returns \<open>True\<close> although no output file was written.
\<close>

theorem fallback_reports_success_after_failed_conversion:
  "snd (extract_audio_with_moviepy export_fails clip_world ''/tmp/clip.mp4'' ''/tmp/clip.aac'') = True \<and>
   log_messages (fst (extract_audio_with_moviepy export_fails clip_world ''/tmp/clip.mp4'' ''/tmp/clip.aac'')) =
     [LogMoviepyStart, LogConvertException (LibraryError ''encode''), LogMoviepyDone ''/tmp/clip.aac''] \<and>
   disk (fst (extract_audio_with_moviepy export_fails clip_world ''/tmp/clip.mp4'' ''/tmp/clip.aac''))
     ''/tmp/clip.aac'' = None"
  by code_simp

section \<open>The result list and the downloads\<close>

lemma extract_audio_true_exists:
  assumes "extract_audio ev w i out = (w3, True)"
  shows "os_path_exists (disk w3) out"
proof (cases "extract_audio_body ev w i out")
  case (Pair w' r)
  show ?thesis
  proof (cases r)
    case (Inl e)
    with Pair assms show ?thesis by (simp add: extract_audio_def)
  next
    case (Inr b)
    with Pair assms have b: "b = True" and w3: "w3 = w'"
      by (simp_all add: extract_audio_def)
    show ?thesis
    proof (cases "extract_prepare ev w i out")
      case prep: (Pair w1 r1)
      show ?thesis
      proof (cases r1)
        case (Inl e)
        with prep Pair Inr show ?thesis by (simp add: extract_audio_body_def)
      next
        case fmt: (Inr fmt)
        obtain w2 success where at: "extract_attempts ev w1 i out fmt = (w2, success)"
          by (cases "extract_attempts ev w1 i out fmt")
        have fin: "extract_finish ev w2 out success = (w', Inr True)"
          using prep fmt at Pair Inr b by (simp add: extract_audio_body_def)
        have "os_path_exists (disk (fst (extract_finish ev w2 out success))) out"
          by (rule finish_true_exists) (simp add: fin)
        then show ?thesis by (simp add: fin w3)
      qed
    qed
  qed
qed

lemma download_individual_filter:
  "download_individual fsys paths = download_individual fsys (filter (os_path_exists fsys) paths)"
  by (induction paths) (simp_all split: sum.splits)

lemma download_individual_never_missing:
  "download_individual fsys paths \<noteq> Inl (FileNotFoundError p)"
  by (induction paths)
     (auto simp: read_file_def os_path_exists_def split: sum.splits option.splits node.splits)

text \<open>
  Claim C8: a path is appended to \<^verbatim>\<open>output_audio_paths\<close> exactly when \<^verbatim>\<open>extract_audio\<close>
  returned \<open>True\<close>, and then the path exists on the disk of the state in which it is
  appended; the download actions read only the paths that pass the existence check made
  just before: they behave as on the list filtered by existence, and an individual
  download never fails for a missing file.
\<close>

theorem appended_path_exists_and_is_rechecked:
  "(extract_audio ev w input_path output_path = (w3, success) \<and>
    record_outcome w3 success output_path nm n = (w4, n') \<longrightarrow>
      (if success
       then output_audio_paths w4 = output_audio_paths w3 @ [output_path] \<and>
            os_path_exists (disk w4) output_path
       else output_audio_paths w4 = output_audio_paths w3)) \<and>
   download_individual fsys paths =
     download_individual fsys (filter (os_path_exists fsys) paths) \<and>
   download_individual fsys paths \<noteq> Inl (FileNotFoundError p) \<and>
   download_archive cfg fsys paths =
     download_archive cfg fsys (filter (os_path_exists fsys) paths)"
proof -
  have a: "extract_audio ev w input_path output_path = (w3, success) \<and>
    record_outcome w3 success output_path nm n = (w4, n') \<longrightarrow>
      (if success
       then output_audio_paths w4 = output_audio_paths w3 @ [output_path] \<and>
            os_path_exists (disk w4) output_path
       else output_audio_paths w4 = output_audio_paths w3)"
    using extract_audio_true_exists [of ev w input_path output_path w3]
    by (auto simp: record_outcome_def append_log_def)
  have d: "download_archive cfg fsys paths =
     download_archive cfg fsys (filter (os_path_exists fsys) paths)"
    by (simp add: download_archive_def)
  from a d download_individual_filter [of fsys paths]
    download_individual_never_missing [of fsys paths p]
  show ?thesis by blast
qed

theorem appended_path_exists_and_is_rechecked_witness:
  "snd (extract_audio tools_working clip_world ''/tmp/clip.mp4'' ''/tmp/clip.mp3'') = True \<and>
   output_audio_paths
     (fst (record_outcome (fst (extract_audio tools_working clip_world ''/tmp/clip.mp4'' ''/tmp/clip.mp3''))
             True ''/tmp/clip.mp3'' ''clip.mp4'' 0)) = [''/tmp/clip.mp3''] \<and>
   os_path_exists
     (disk (fst (record_outcome (fst (extract_audio tools_working clip_world ''/tmp/clip.mp4'' ''/tmp/clip.mp3''))
                   True ''/tmp/clip.mp3'' ''clip.mp4'' 0))) ''/tmp/clip.mp3''"
proof -
  let ?r = "extract_audio tools_working clip_world ''/tmp/clip.mp4'' ''/tmp/clip.mp3''"
  let ?o = "record_outcome (fst ?r) True ''/tmp/clip.mp3'' ''clip.mp4'' 0"
  have s: "snd ?r = True"
    by code_simp
  have e: "?r = (fst ?r, True)"
    using s by (simp add: prod_eq_iff)
  have o: "?o = (fst ?o, snd ?o)"
    by simp
  have p: "output_audio_paths (fst ?r) = []"
    by code_simp
  show ?thesis
    using appended_path_exists_and_is_rechecked
      [where ev = tools_working and w = clip_world and input_path = "''/tmp/clip.mp4''"
         and output_path = "''/tmp/clip.mp3''" and ?w3.0 = "fst ?r" and success = True
         and nm = "''clip.mp4''" and n = 0 and ?w4.0 = "fst ?o" and n' = "snd ?o"] e o s p
    by simp
qed

section \<open>The batch loop\<close>



lemma process_upload_staged:
  assumes "write_file (disk w) (staged_path f) (upload_buffer f) = Inr d"
    and "extract_audio ev
           (append_log (LogFileHeader (i + 1) t (upload_name f)) (w\<lparr>disk := d\<rparr>))
           (staged_path f) (output_path_of cfg f) = (w3, success)"
    and "record_outcome w3 success (output_path_of cfg f) (upload_name f) n = (w4, n')"
  shows "process_upload ev cfg t i f w n =
     (if os_path_exists (disk w4) (staged_path f)
      then (case os_remove (disk w4) (staged_path f) of
              Inl e \<Rightarrow> (w4, n', Some e)
            | Inr d' \<Rightarrow> (w4\<lparr>disk := d'\<rparr>, n', None))
      else (w4, n', None))"
  using assms by (simp add: process_upload_def Let_def)

lemma process_upload_not_staged:
  assumes "write_file (disk w) (staged_path f) (upload_buffer f) = Inl e"
  shows "process_upload ev cfg t i f w n = (w, n, Some e)"
  using assms by (simp add: process_upload_def Let_def)



lemma record_outcome_tally:
  "n = length (output_audio_paths w) \<Longrightarrow>
     snd (record_outcome w success out nm n) =
       length (output_audio_paths (fst (record_outcome w success out nm n)))"
  by (simp add: record_outcome_def append_log_def)


lemma process_upload_tally:
  assumes "n = length (output_audio_paths w)"
    and "process_upload ev cfg t i f w n = (w', n', r)"
  shows "n' = length (output_audio_paths w')"
proof (cases "write_file (disk w) (staged_path f) (upload_buffer f)")
  case (Inl e)
  with assms show ?thesis
    by (auto simp: process_upload_not_staged [OF Inl])
next
  case (Inr d)
  define w2 where "w2 = append_log (LogFileHeader (i + 1) t (upload_name f)) (w\<lparr>disk := d\<rparr>)"
  obtain w3 success where ex: "extract_audio ev w2 (staged_path f) (output_path_of cfg f) = (w3, success)"
    by (cases "extract_audio ev w2 (staged_path f) (output_path_of cfg f)")
  obtain w4 m where ro: "record_outcome w3 success (output_path_of cfg f) (upload_name f) n = (w4, m)"
    by (cases "record_outcome w3 success (output_path_of cfg f) (upload_name f) n")
  have k2: "session_kept w w2"
    by (simp add: w2_def session_kept_simps)
  have k3: "session_kept w w3"
    using k2 extract_audio_keeps_session [of w2 ev "staged_path f" "output_path_of cfg f"] ex
      session_kept_trans by fastforce
  have n3: "n = length (output_audio_paths w3)"
    using assms(1) k3 by (simp add: session_kept_def)
  have m: "m = length (output_audio_paths w4)"
    using record_outcome_tally [OF n3, of success "output_path_of cfg f" "upload_name f"] ro
    by simp
  have "n' = m \<and> output_audio_paths w' = output_audio_paths w4"
    using assms(2) process_upload_staged [OF Inr ex [unfolded w2_def] ro]
    by (auto split: if_splits sum.splits)
  with m show ?thesis by simp
qed

lemma batch_loop_tally:
  "n = length (output_audio_paths w) \<Longrightarrow>
     batch_loop ev cfg t i files w n = (w', n', r) \<Longrightarrow>
     n' = length (output_audio_paths w')"
proof (induction files arbitrary: i w n)
  case Nil
  then show ?case by auto
next
  case (Cons f rest)
  obtain w1 n1 r1 where step: "process_upload ev cfg t i f w n = (w1, n1, r1)"
    by (cases "process_upload ev cfg t i f w n") auto
  have n1: "n1 = length (output_audio_paths w1)"
    using process_upload_tally [OF Cons.prems(1) step] .
  show ?case
  proof (cases r1)
    case None
    with Cons.prems(2) step have "batch_loop ev cfg t (Suc i) rest w1 n1 = (w', n', r)"
      by simp
    from Cons.IH [OF n1 this] show ?thesis .
  next
    case (Some e)
    with Cons.prems(2) step n1 show ?thesis by auto
  qed
qed




text \<open>
  Claim C10: at the end of the handler of the extraction button, also when the loop was
  ended by an exception, the success tally equals the number of paths in the result list.
\<close>

theorem tally_equals_result_count:
  "fst (snd (start_extraction ev cfg uploaded_files w)) =
     length (output_audio_paths (fst (start_extraction ev cfg uploaded_files w)))"
proof -
  define w0 where "w0 = w\<lparr>log_messages := [], output_audio_paths := [], processing_complete := False\<rparr>"
  obtain w1 n r where loop: "batch_loop ev cfg (length uploaded_files) 0 uploaded_files w0 0 = (w1, n, r)"
    by (cases "batch_loop ev cfg (length uploaded_files) 0 uploaded_files w0 0") auto
  have z: "(0::nat) = length (output_audio_paths w0)"
    by (simp add: w0_def)
  have n: "n = length (output_audio_paths w1)"
    using batch_loop_tally [OF z loop] .
  show ?thesis
    using loop n unfolding w0_def
    by (simp add: start_extraction_def Let_def split: option.splits)
qed

lemma batch_example:
  "fst (snd (start_extraction tools_working mp3_settings [notes_upload, clip_upload] empty_world)) = 1 \<and>
   output_audio_paths
     (fst (start_extraction tools_working mp3_settings [notes_upload, clip_upload] empty_world)) =
     [''/tmp/clip.mp3''] \<and>
   processing_complete
     (fst (start_extraction tools_working mp3_settings [notes_upload, clip_upload] empty_world))"
  by code_simp

end
